theory Spec2Isabelle
  imports Complex_Main
begin

section \<open>Conventions of the embedding\<close>

text \<open>
  The TypeScript sources are embedded shallowly.  A JavaScript \<open>number\<close> is a \<open>real\<close>
  (or an \<open>int\<close> where the source only ever holds integers): rounding, infinities and
  \<open>NaN\<close> have no counterpart in these types; the rounding of binary64 arithmetic is
  written out for the calibration, where it decides the branch taken.  Where the source itself can produce
  \<open>undefined\<close> or \<open>NaN\<close> from the data it is given (an array read out of range, a
  \<open>parseFloat\<close> or \<open>parseInt\<close> of a text that is no number), the embedding makes that
  outcome explicit as \<open>None\<close>.  A JavaScript string is a \<open>string\<close> of 8-bit characters
  (code units below 256).
  A \<open>Map\<close> is an association list in insertion order, a \<open>Set\<close> of strings a duplicate-free
  list in insertion order.
\<close>

section \<open>JavaScript library functions used by the sources\<close>

subsection \<open>Character classes and string functions\<close>

definition is_digit :: "char \<Rightarrow> bool" where
  \<comment> \<open>the regular-expression class \<open>\d\<close>\<close>
  "is_digit c = (48 \<le> (of_char c :: nat) \<and> (of_char c :: nat) \<le> 57)"

definition is_ws :: "char \<Rightarrow> bool" where
  \<comment> \<open>the class \<open>\s\<close> and the characters removed by \<open>trim\<close>: TAB, LF, VT, FF, CR,
      space and the no-break space\<close>
  "is_ws c = (c \<in> {CHR 0x09, CHR 0x0A, CHR 0x0B, CHR 0x0C, CHR 0x0D, CHR 0x20, CHR 0xA0})"

definition is_dot :: "char \<Rightarrow> bool" where
  \<comment> \<open>the class \<open>.\<close>: everything but a line terminator\<close>
  "is_dot c = (c \<noteq> CHR 0x0A \<and> c \<noteq> CHR 0x0D)"

definition js_trim :: "string \<Rightarrow> string" where
  "js_trim s = rev (dropWhile is_ws (rev (dropWhile is_ws s)))"

fun starts_with :: "string \<Rightarrow> string \<Rightarrow> bool" where
  "starts_with s [] = True"
| "starts_with [] (p # ps) = False"
| "starts_with (c # cs) (p # ps) = (c = p \<and> starts_with cs ps)"

definition ends_with :: "string \<Rightarrow> string \<Rightarrow> bool" where
  "ends_with s p = starts_with (rev s) (rev p)"

fun js_includes :: "string \<Rightarrow> string \<Rightarrow> bool" where
  "js_includes [] p = (p = [])"
| "js_includes (c # cs) p = (starts_with (c # cs) p \<or> js_includes cs p)"

text \<open>\<open>s.split(sep)\<close> for a non-empty separator: \<open>split_acc\<close> carries the reversed
  characters of the part being read, and skips the separator where it finds one.\<close>

fun split_acc :: "string \<Rightarrow> string \<Rightarrow> string \<Rightarrow> string list" where
  "split_acc sep acc [] = [rev acc]"
| "split_acc sep acc (c # cs) =
     (if starts_with (c # cs) sep
      then rev acc # split_acc sep [] (drop (length sep - 1) cs)
      else split_acc sep (c # acc) cs)"

definition js_split :: "string \<Rightarrow> string \<Rightarrow> string list" where
  "js_split s sep = split_acc sep [] s"

definition lower_char :: "char \<Rightarrow> char" where
  \<comment> \<open>the letters A to Z and, above 127, the capital letters 192 to 222 but the sign 215\<close>
  "lower_char c =
     (let n = (of_char c :: nat)
      in if (65 \<le> n \<and> n \<le> 90) \<or> (192 \<le> n \<and> n \<le> 222 \<and> n \<noteq> 215)
         then char_of (n + 32) else c)"

definition toLowerCase :: "string \<Rightarrow> string" where
  "toLowerCase s = map lower_char s"

subsection \<open>Array reads\<close>

text \<open>\<open>xs[i]\<close> is \<open>undefined\<close> outside the array, and an index that is itself
  \<open>undefined\<close> reads \<open>undefined\<close>.\<close>

definition aread :: "'a list \<Rightarrow> int option \<Rightarrow> 'a option" where
  "aread xs i =
     (case i of None \<Rightarrow> None
      | Some j \<Rightarrow> if 0 \<le> j \<and> j < int (length xs) then Some (xs ! nat j) else None)"

definition js_lt :: "real option \<Rightarrow> real option \<Rightarrow> bool" where
  \<comment> \<open>\<open>a < b\<close> on numbers: false as soon as one side is \<open>undefined\<close>\<close>
  "js_lt a b = (case (a, b) of (Some x, Some y) \<Rightarrow> x < y | _ \<Rightarrow> False)"

subsection \<open>Regular expressions\<close>

text \<open>
  The regular expressions of the sources are sequences of literals, greedy repetitions of
  one character class (at least \<open>mn\<close> times) and the end anchor.  \<open>re_items\<close> matches such
  a sequence at the start of a text, backtracking over the repetition counts from the
  longest down, and returns the text consumed by each item.
\<close>

datatype re_item = Lit string | Rep "char \<Rightarrow> bool" nat | Eos

fun first_some :: "'a option list \<Rightarrow> 'a option" where
  "first_some [] = None"
| "first_some (None # xs) = first_some xs"
| "first_some (Some x # xs) = Some x"

fun re_items :: "re_item list \<Rightarrow> string \<Rightarrow> string list option" where
  "re_items [] s = Some []"
| "re_items (Lit l # r) s =
     (if starts_with s l then map_option ((#) l) (re_items r (drop (length l) s)) else None)"
| "re_items (Eos # r) s = (if s = [] then map_option ((#) []) (re_items r s) else None)"
| "re_items (Rep p mn # r) s =
     first_some (map (\<lambda>k. map_option ((#) (take k s)) (re_items r (drop k s)))
                     (rev [mn ..< Suc (length (takeWhile p s))]))"

text \<open>An unanchored expression is tried at every position from the left.\<close>

fun re_search :: "re_item list \<Rightarrow> string \<Rightarrow> string list option" where
  "re_search items [] = re_items items []"
| "re_search items (c # cs) =
     (case re_items items (c # cs) of Some m \<Rightarrow> Some m | None \<Rightarrow> re_search items cs)"

subsection \<open>parseInt and parseFloat\<close>

definition digit_val :: "char \<Rightarrow> int" where
  "digit_val c =
     (if is_digit c then of_char c - 48
      else if 97 \<le> (of_char c :: nat) \<and> (of_char c :: nat) \<le> 102 then of_char c - 87
      else of_char c - 55)"

definition is_hex :: "char \<Rightarrow> bool" where
  "is_hex c = (is_digit c \<or> (97 \<le> (of_char c :: nat) \<and> (of_char c :: nat) \<le> 102)
                \<or> (65 \<le> (of_char c :: nat) \<and> (of_char c :: nat) \<le> 70))"

definition digits_val :: "int \<Rightarrow> string \<Rightarrow> int" where
  "digits_val radix ds = foldl (\<lambda>v c. v * radix + digit_val c) 0 ds"

definition strip_sign :: "string \<Rightarrow> bool \<times> string" where
  \<comment> \<open>an optional sign; the flag says that it was a minus\<close>
  "strip_sign s =
     (case s of [] \<Rightarrow> (False, [])
      | c # cs \<Rightarrow> if c = CHR ''-'' then (True, cs) else if c = CHR ''+'' then (False, cs)
                  else (False, s))"

definition parseInt :: "string \<Rightarrow> int option" where
  \<comment> \<open>\<open>parseInt(s)\<close> without a radix; \<open>None\<close> is \<open>NaN\<close>\<close>
  "parseInt s =
     (let (neg, t) = strip_sign (dropWhile is_ws s);
          hex = (starts_with t ''0x'' \<or> starts_with t ''0X'');
          ds = (if hex then takeWhile is_hex (drop 2 t) else takeWhile is_digit t);
          v = digits_val (if hex then 16 else 10) ds
      in if ds = [] then None else Some (if neg then - v else v))"

definition parseFloat :: "string \<Rightarrow> real option" where
  \<comment> \<open>\<open>parseFloat(s)\<close>: the longest prefix that is a decimal literal; \<open>None\<close> is \<open>NaN\<close>
      (the literal \<open>Infinity\<close> is not represented and reads as \<open>None\<close> too)\<close>
  "parseFloat s =
     (let (neg, t) = strip_sign (dropWhile is_ws s);
          ip = takeWhile is_digit t;
          t1 = dropWhile is_digit t;
          fp = (if starts_with t1 ''.'' then takeWhile is_digit (drop 1 t1) else []);
          t2 = (if starts_with t1 ''.'' then dropWhile is_digit (drop 1 t1) else t1);
          (eneg, t3) = strip_sign (drop 1 t2);
          ed = (if starts_with t2 ''e'' \<or> starts_with t2 ''E'' then takeWhile is_digit t3 else []);
          mant = real_of_int (digits_val 10 (ip @ fp)) / 10 ^ length fp;
          v = (if eneg then mant / 10 ^ nat (digits_val 10 ed)
               else mant * 10 ^ nat (digits_val 10 ed))
      in if ip = [] \<and> fp = [] then None else Some (if neg then - v else v))"

section \<open>The tree ensemble scorer (class XGBoostPredictor)\<close>

subsection \<open>Data\<close>

text \<open>The fields of \<open>XGBoostTree\<close> that the scorer reads.\<close>

record XGBoostTree =
  base_weights :: "real list"
  left_children :: "int list"
  right_children :: "int list"
  split_conditions :: "real list"
  split_indices :: "int list"

text \<open>
  \<open>XGBoostModel\<close>: \<open>base_score\<close> is \<open>model_data?.learner?.learner_model_param?.base_score\<close>,
  \<open>trees\<close> is \<open>model_data?.learner?.gradient_booster?.model?.trees\<close> and
  \<open>learner_feature_names\<close> is \<open>model_data?.learner?.feature_names\<close>; \<open>None\<close> is \<open>undefined\<close>.
\<close>

record XGBoostModel =
  base_score :: "string option"
  trees :: "XGBoostTree list option"
  feature_names :: "string list option"
  learner_feature_names :: "string list option"
  feature_count :: nat

datatype RiskCategory = IMPROVED | STABLE | DEGRADED | SEVERELY_DEGRADED

text \<open>A \<open>Date\<close> holds a time value in milliseconds or is invalid (its time value is
  \<open>NaN\<close>).\<close>

datatype date = Date int | InvalidDate

text \<open>
  \<open>CommitData\<close>: the base counters are always present, the thirteen engineered fields are
  optional.  The type of the numbers \<open>days_active\<close> and \<open>commits_per_day\<close> is a parameter
  of the record.  The scorer computes with real numbers, where \<open>NaN\<close> has no counterpart,
  and reads records of type \<open>real CommitData\<close>.  The aggregator can write \<open>NaN\<close> into
  these two fields: the records it returns have type \<open>real option CommitData\<close>, where
  \<open>None\<close> is \<open>NaN\<close>.
\<close>

record 'n CommitData =
  module :: string
  filename :: string
  repo_name :: string
  commits :: real
  authors :: real
  author_names :: "string list"
  lines_added :: real
  lines_deleted :: real
  churn :: real
  bug_commits :: real
  refactor_commits :: real
  feature_commits :: real
  lines_per_author :: real
  churn_per_commit :: real
  bug_ratio :: real
  days_active :: 'n
  commits_per_day :: 'n
  created_at :: date
  last_modified :: date
  degradation_days :: "real option"
  net_lines :: "real option"
  code_stability :: "real option"
  is_high_churn_commit :: "real option"
  bug_commit_rate :: "real option"
  commits_squared :: "real option"
  author_concentration :: "real option"
  lines_per_commit :: "real option"
  churn_rate :: "real option"
  modification_ratio :: "real option"
  churn_per_author :: "real option"
  deletion_rate :: "real option"
  commit_density :: "real option"

record RiskPrediction =
  features :: "real CommitData"
  degradation_score :: real
  raw_prediction :: "real option"
  risk_category :: RiskCategory

datatype failure = Error string | TypeError

record XGBoostPredictor =
  model :: "XGBoostModel option"

subsection \<open>The feature engineer (class FeatureEngineer)\<close>

definition transform1 :: "real CommitData \<Rightarrow> real CommitData" where
  \<comment> \<open>the body of the \<open>map\<close> in \<open>transform\<close>; the base fields are never \<open>undefined\<close>
      (a denominator that is zero gives an infinity or \<open>NaN\<close> in the source, and 0 here)\<close>
  "transform1 r = r
     \<lparr> net_lines := Some (lines_added r - lines_deleted r),
       code_stability := Some (churn r / (lines_added r + 1)),
       is_high_churn_commit := Some (if churn_per_commit r > 100 then 1 else 0),
       bug_commit_rate := Some (bug_commits r / (commits r + 1)),
       commits_squared := Some (commits r * commits r),
       author_concentration := Some (1 / (authors r + 1)),
       lines_per_commit := Some (lines_added r / (commits r + 1)),
       churn_rate := Some (churn r / (days_active r + 1)),
       modification_ratio := Some (lines_deleted r / (lines_added r + 1)),
       churn_per_author := Some (churn r / (authors r + 1)),
       deletion_rate := Some (lines_deleted r / (lines_added r + lines_deleted r + 1)),
       commit_density := Some (commits r / (days_active r + 1)),
       degradation_days := Some (days_active r) \<rparr>"

definition transform :: "real CommitData list \<Rightarrow> real CommitData list" where
  "transform data = map transform1 data"

definition or0 :: "real option \<Rightarrow> real" where
  \<comment> \<open>\<open>x || 0\<close>\<close>
  "or0 x = (case x of None \<Rightarrow> 0 | Some v \<Rightarrow> v)"

definition extractFeatureVector :: "real CommitData \<Rightarrow> real list" where
  "extractFeatureVector f =
     [ commits f, authors f, lines_added f, lines_deleted f, churn f, bug_commits f,
       refactor_commits f, feature_commits f, lines_per_author f, churn_per_commit f,
       bug_ratio f, days_active f, commits_per_day f,
       or0 (degradation_days f), or0 (net_lines f), or0 (code_stability f),
       or0 (is_high_churn_commit f), or0 (bug_commit_rate f), or0 (commits_squared f),
       or0 (author_concentration f), or0 (lines_per_commit f), or0 (churn_rate f),
       or0 (modification_ratio f), or0 (churn_per_author f), or0 (deletion_rate f),
       or0 (commit_density f) ]"

subsection \<open>Scoring\<close>

definition loadModel :: "XGBoostModel \<Rightarrow> XGBoostPredictor \<Rightarrow> XGBoostPredictor" where
  \<comment> \<open>the first argument is the bundled constant \<open>XGBOOST_MODEL\<close>\<close>
  "loadModel bundled p =
     p \<lparr> model := Some
           (if feature_names bundled = None \<and> learner_feature_names bundled \<noteq> None
            then bundled \<lparr> feature_names := learner_feature_names bundled \<rparr>
            else bundled) \<rparr>"

text \<open>The loop of \<open>predictTree\<close>; it returns nothing (\<open>None\<close>) when the walk never ends.
  The value returned is \<open>base_weights[nodeId]\<close>, which may be \<open>undefined\<close>.\<close>

partial_function (option) predictTree_loop ::
  "XGBoostTree \<Rightarrow> real list \<Rightarrow> int option \<Rightarrow> real option option" where
  "predictTree_loop tree fv nodeId =
     (if aread (left_children tree) nodeId = Some (- 1)
      then Some (aread (base_weights tree) nodeId)
      else if js_lt (aread fv (aread (split_indices tree) nodeId))
                    (aread (split_conditions tree) nodeId)
      then predictTree_loop tree fv (aread (left_children tree) nodeId)
      else predictTree_loop tree fv (aread (right_children tree) nodeId))"

definition predictTree :: "XGBoostTree \<Rightarrow> real list \<Rightarrow> real option option" where
  "predictTree tree fv = predictTree_loop tree fv (Some 0)"

definition base_score_re :: "re_item list" where
  \<comment> \<open>\<open>/\[([-\d.eE]+)\]/\<close>; the group is item 1\<close>
  "base_score_re =
     [Lit ''['', Rep (\<lambda>c. c = CHR ''-'' \<or> is_digit c \<or> c = CHR ''.'' \<or> c = CHR ''e'' \<or> c = CHR ''E'') 1,
      Lit '']'']"

definition baseScore :: "XGBoostModel \<Rightarrow> real option" where
  \<comment> \<open>the value of \<open>score\<close> before the trees are added; \<open>None\<close> is \<open>NaN\<close>\<close>
  "baseScore m =
     (case base_score m of
        None \<Rightarrow> Some 0.5
      | Some baseScoreStr \<Rightarrow>
          if baseScoreStr = [] then Some 0.5
          else (case re_search base_score_re baseScoreStr of
                  None \<Rightarrow> Some 0.5
                | Some match \<Rightarrow> parseFloat (match ! 1)))"

definition sigmoid :: "real \<Rightarrow> real" where
  "sigmoid x = 1 / (1 + exp (- x))"

definition nan_add :: "real option \<Rightarrow> real option \<Rightarrow> real option" where
  \<comment> \<open>\<open>+\<close> on numbers where \<open>None\<close> is \<open>NaN\<close> or \<open>undefined\<close>\<close>
  "nan_add a b = (case (a, b) of (Some x, Some y) \<Rightarrow> Some (x + y) | _ \<Rightarrow> None)"

text \<open>The \<open>for\<close> loop over the trees: \<open>None\<close> when a tree walk never ends.\<close>

fun add_trees :: "XGBoostTree list \<Rightarrow> real list \<Rightarrow> real option \<Rightarrow> real option option" where
  "add_trees [] fv score = Some score"
| "add_trees (tree # ts) fv score =
     (case predictTree tree fv of
        None \<Rightarrow> None
      | Some w \<Rightarrow> add_trees ts fv (nan_add score w))"

definition model_trees :: "XGBoostModel \<Rightarrow> XGBoostTree list" where
  \<comment> \<open>\<open>... ?.trees || []\<close>\<close>
  "model_trees m = (case trees m of None \<Rightarrow> [] | Some ts \<Rightarrow> ts)"

definition predictSingle :: "XGBoostModel \<Rightarrow> real list \<Rightarrow> real option option" where
  \<comment> \<open>for a loaded model (\<open>predict\<close> has tested it); outer \<open>None\<close>: no return; inner
      \<open>None\<close>: the number returned is \<open>NaN\<close>\<close>
  "predictSingle m fv =
     (if model_trees m = [] then Some (baseScore m)
      else map_option (map_option sigmoid) (add_trees (model_trees m) fv (baseScore m)))"

definition TRAIN_MEAN :: real where "TRAIN_MEAN = - 0.011"
definition TRAIN_STD :: real where "TRAIN_STD = 0.082"
definition TRAIN_MIN :: real where "TRAIN_MIN = - 0.531"
definition TRAIN_MAX :: real where "TRAIN_MAX = 0.566"

definition calibratePredictions :: "real list \<Rightarrow> real list" where
  "calibratePredictions predictions =
     (let rawMean = foldl (\<lambda>a b. a + b) 0 predictions / real (length predictions);
          rawStd = sqrt (foldl (\<lambda>sum pred. sum + (pred - rawMean) ^ 2) 0 predictions
                         / real (length predictions))
      in if rawStd > 0
         then map (\<lambda>pred. let zScore = (pred - rawMean) / rawStd;
                              scaled = zScore * TRAIN_STD + TRAIN_MEAN
                          in max (TRAIN_MIN - 0.1) (min (TRAIN_MAX + 0.1) scaled)) predictions
         else map (\<lambda>_. TRAIN_MEAN) predictions)"

subsection \<open>Calibration in binary64 arithmetic\<close>

text \<open>
  \<open>calibratePredictions\<close> above computes in exact arithmetic.  A JavaScript number is an
  IEEE 754 binary64 number, and every operation returns the binary64 number nearest to
  its exact result, ties to the even significand.  \<open>f64\<close> is that rounding (overflow to
  infinity is not represented); \<open>calibratePredictions_f64\<close> is the same function with every
  operation and every decimal literal rounded.  \<open>Math.pow(x, 2)\<close> and \<open>Math.sqrt\<close> are
  taken as correctly rounded.  It is \<open>calibratePredictions_f64\<close> that \<open>predict\<close> calls.
\<close>

definition pow2 :: "int \<Rightarrow> real" where
  "pow2 e = (if 0 \<le> e then 2 ^ nat e else 1 / 2 ^ nat (- e))"

definition round_even :: "real \<Rightarrow> int" where
  \<comment> \<open>the nearest integer, the even one of two equally near\<close>
  "round_even y =
     (let f = \<lfloor>y\<rfloor>; d = y - real_of_int f
      in if d < 1 / 2 then f else if 1 / 2 < d then f + 1 else if even f then f else f + 1)"

definition f64 :: "real \<Rightarrow> real" where
  \<comment> \<open>53 significant bits; below \<open>2^-1022\<close> the spacing stays \<open>2^-1074\<close>\<close>
  "f64 x =
     (if x = 0 then 0
      else (let e = max \<lfloor>log 2 \<bar>x\<bar>\<rfloor> (- 1022) - 52
            in real_of_int (round_even (x / pow2 e)) * pow2 e))"

definition fadd :: "real \<Rightarrow> real \<Rightarrow> real" where "fadd a b = f64 (a + b)"
definition fsub :: "real \<Rightarrow> real \<Rightarrow> real" where "fsub a b = f64 (a - b)"
definition fmul :: "real \<Rightarrow> real \<Rightarrow> real" where "fmul a b = f64 (a * b)"
definition fdiv :: "real \<Rightarrow> real \<Rightarrow> real" where "fdiv a b = f64 (a / b)"
definition fsqrt :: "real \<Rightarrow> real" where "fsqrt a = f64 (sqrt a)"
definition fsquare :: "real \<Rightarrow> real" where "fsquare a = f64 (a ^ 2)"

definition calibratePredictions_f64 :: "real list \<Rightarrow> real list" where
  "calibratePredictions_f64 predictions =
     (let rawMean = fdiv (foldl (\<lambda>a b. fadd a b) 0 predictions) (real (length predictions));
          rawStd = fsqrt (fdiv (foldl (\<lambda>sum pred. fadd sum (fsquare (fsub pred rawMean))) 0
                                      predictions)
                               (real (length predictions)))
      in if rawStd > 0
         then map (\<lambda>pred. let zScore = fdiv (fsub pred rawMean) rawStd;
                              scaled = fadd (fmul zScore (f64 TRAIN_STD)) (f64 TRAIN_MEAN)
                          in max (fsub (f64 TRAIN_MIN) (f64 0.1))
                                 (min (fadd (f64 TRAIN_MAX) (f64 0.1)) scaled)) predictions
         else map (\<lambda>_. f64 TRAIN_MEAN) predictions)"

subsection \<open>Categories and the prediction of a batch\<close>

definition getRiskCategory :: "real \<Rightarrow> RiskCategory" where
  "getRiskCategory score =
     (if score < 0 then IMPROVED
      else if score \<le> 0.1 then STABLE
      else if score \<le> 0.2 then DEGRADED
      else SEVERELY_DEGRADED)"

text \<open>The raw predictions of a batch, in order: \<open>None\<close> when one of them never returns.\<close>

fun raw_predictions :: "XGBoostModel \<Rightarrow> real CommitData list \<Rightarrow> real option list option" where
  "raw_predictions m [] = Some []"
| "raw_predictions m (f # fs) =
     (case predictSingle m (extractFeatureVector f) of
        None \<Rightarrow> None
      | Some r \<Rightarrow> map_option ((#) r) (raw_predictions m fs))"

definition getRiskCategory_f64 :: "real \<Rightarrow> RiskCategory" where
  \<comment> \<open>\<open>getRiskCategory\<close> on a binary64 score: the literals \<open>0.1\<close> and \<open>0.2\<close> are the binary64
      numbers nearest to them\<close>
  "getRiskCategory_f64 score =
     (if score < 0 then IMPROVED
      else if score \<le> f64 0.1 then STABLE
      else if score \<le> f64 0.2 then DEGRADED
      else SEVERELY_DEGRADED)"

definition calibrate_batch :: "real option list \<Rightarrow> real list" where
  \<comment> \<open>\<open>calibratePredictions\<close> as \<open>predict\<close> calls it, on binary64 numbers that may be \<open>NaN\<close>:
      the raw predictions are rounded to binary64; one \<open>NaN\<close> makes the mean and the
      deviation \<open>NaN\<close>, the test \<open>rawStd > 0\<close> false, and every score \<open>TRAIN_MEAN\<close>\<close>
  "calibrate_batch raws =
     (if list_all (\<lambda>r. r \<noteq> None) raws
      then calibratePredictions_f64 (map (\<lambda>r. f64 (the r)) raws)
      else map (\<lambda>_. f64 TRAIN_MEAN) raws)"

definition not_loaded :: failure where
  "not_loaded = Error ''Model not loaded. Call loadModel() first.''"

definition predict ::
  "XGBoostPredictor \<Rightarrow> real CommitData list
   \<Rightarrow> ((failure + RiskPrediction list) \<times> XGBoostPredictor) option" where
  \<comment> \<open>the result (an exception is \<open>Inl\<close>) and the scorer afterwards; \<open>None\<close>: no return\<close>
  "predict p commitData =
     (case model p of
        None \<Rightarrow> Some (Inl not_loaded, p)
      | Some m \<Rightarrow>
          (let fs = transform commitData in
           case raw_predictions m fs of
             None \<Rightarrow> None
           | Some rawPredictions \<Rightarrow>
               (let calibratedScores = calibrate_batch rawPredictions
                in Some (Inr (map (\<lambda>(feature, degradationScore, rawScore).
                                     \<lparr> features = feature,
                                       degradation_score = degradationScore,
                                       raw_prediction = rawScore,
                                       risk_category = getRiskCategory_f64 degradationScore \<rparr>)
                                  (zip fs (zip calibratedScores rawPredictions))), p))))"

section \<open>The commit aggregator (class GitCommitCollector)\<close>

subsection \<open>Data\<close>

text \<open>Comparing with an invalid \<open>Date\<close> is always false.\<close>

definition new_Date :: "int option \<Rightarrow> date" where
  \<comment> \<open>\<open>new Date(v)\<close> for a number \<open>v\<close> that may be \<open>NaN\<close>\<close>
  "new_Date v =
     (case v of None \<Rightarrow> InvalidDate
      | Some ms \<Rightarrow> if \<bar>ms\<bar> \<le> 8640000000000000 then Date ms else InvalidDate)"

definition date_lt :: "date \<Rightarrow> date \<Rightarrow> bool" where
  "date_lt a b = (case (a, b) of (Date x, Date y) \<Rightarrow> x < y | _ \<Rightarrow> False)"

definition date_le :: "date \<Rightarrow> date \<Rightarrow> bool" where
  "date_le a b = (case (a, b) of (Date x, Date y) \<Rightarrow> x \<le> y | _ \<Rightarrow> False)"

text \<open>\<open>FileStats\<close>; the fields carry the prefix \<open>fs_\<close> because \<open>CommitData\<close> has fields of
  the same names.\<close>

record FileStats =
  fs_lines_added :: int
  fs_lines_deleted :: int
  fs_commits :: int
  fs_authors :: "string list"
  fs_bug_commits :: int
  fs_first_commit :: date
  fs_last_commit :: date
  fs_feature_commits :: int
  fs_refactor_commits :: int

fun map_set :: "'k \<Rightarrow> 'v \<Rightarrow> ('k \<times> 'v) list \<Rightarrow> ('k \<times> 'v) list" where
  \<comment> \<open>\<open>Map.set\<close>: a known key keeps its place, a new key goes to the end\<close>
  "map_set k v [] = [(k, v)]"
| "map_set k v ((k', v') # kvs) = (if k' = k then (k, v) # kvs else (k', v') # map_set k v kvs)"

definition set_add :: "'a \<Rightarrow> 'a list \<Rightarrow> 'a list" where
  \<comment> \<open>\<open>Set.add\<close>\<close>
  "set_add x xs = (if x \<in> set xs then xs else xs @ [x])"

text \<open>The constructor arguments and the surroundings that \<open>fetchCommitData\<close> reads:
  \<open>existsSync p\<close> is \<open>fs.existsSync(path.join(repoPath, p))\<close>, \<open>repoName\<close> is
  \<open>path.basename(repoPath)\<close>, \<open>now\<close> is \<open>new Date()\<close> at the start of the call.  The
  output of the \<open>git log\<close> command is an argument of \<open>fetchCommitData\<close>.\<close>

record GitCommitCollector =
  onlyExistingFiles :: bool
  existsSync :: "string \<Rightarrow> bool"
  repoName :: string
  now :: date

text \<open>The local variables of \<open>fetchCommitData\<close> that live across the loop over the lines
  (\<open>allRepoAuthors\<close>, which is written and never read, is left out).\<close>

record fetch_state =
  currentAuthor :: string
  currentDate :: date
  isBugFix :: bool
  isFeature :: bool
  isRefactor :: bool
  pathMappings :: "(string \<times> string) list"
  fileStats :: "(string \<times> FileStats) list"

record RenameInfo =
  currentPath :: string
  oldPath :: "string option"

subsection \<open>Folding one commit into the statistics of a file\<close>

definition updateOrCreateFileStats ::
  "string \<Rightarrow> (string \<times> FileStats) list \<Rightarrow> int \<Rightarrow> int \<Rightarrow> string \<Rightarrow> date \<Rightarrow> bool \<Rightarrow> bool \<Rightarrow> bool
   \<Rightarrow> (string \<times> FileStats) list" where
  "updateOrCreateFileStats filepath stats added removed author d bugFix feature refactor =
     (case map_of stats filepath of
        Some existingStats \<Rightarrow>
          (let s1 = existingStats
                 \<lparr> fs_lines_added := fs_lines_added existingStats + added,
                   fs_lines_deleted := fs_lines_deleted existingStats + removed,
                   fs_commits := fs_commits existingStats + 1,
                   fs_authors := set_add author (fs_authors existingStats),
                   fs_bug_commits := fs_bug_commits existingStats + (if bugFix then 1 else 0),
                   fs_feature_commits := fs_feature_commits existingStats + (if feature then 1 else 0),
                   fs_refactor_commits := fs_refactor_commits existingStats + (if refactor then 1 else 0) \<rparr>;
               s2 = (if date_lt d (fs_first_commit s1) then s1 \<lparr> fs_first_commit := d \<rparr> else s1);
               s3 = (if date_lt (fs_last_commit s2) d then s2 \<lparr> fs_last_commit := d \<rparr> else s2)
           in map_set filepath s3 stats)
      | None \<Rightarrow>
          map_set filepath
            \<lparr> fs_lines_added = added, fs_lines_deleted = removed, fs_commits = 1,
              fs_authors = [author], fs_bug_commits = (if bugFix then 1 else 0),
              fs_first_commit = d, fs_last_commit = d,
              fs_feature_commits = (if feature then 1 else 0),
              fs_refactor_commits = (if refactor then 1 else 0) \<rparr> stats)"

subsection \<open>Source files\<close>

definition sourceExtensions :: "string list" where
  "sourceExtensions =
     [''.js'', ''.ts'', ''.jsx'', ''.tsx'', ''.mjs'', ''.cjs'', ''.vue'', ''.svelte'',
      ''.py'', ''.pyx'', ''.pyi'', ''.pyw'',
      ''.java'', ''.kt'', ''.kts'', ''.scala'', ''.groovy'', ''.gradle'',
      ''.c'', ''.cpp'', ''.cxx'', ''.cc'', ''.c++'', ''.h'', ''.hpp'', ''.hxx'', ''.hh'', ''.h++'',
      ''.cs'', ''.vb'', ''.fs'', ''.fsx'', ''.fsi'',
      ''.swift'', ''.m'', ''.mm'', ''.dart'',
      ''.php'', ''.rb'', ''.perl'', ''.pl'', ''.pm'',
      ''.go'', ''.rs'', ''.zig'', ''.nim'', ''.d'',
      ''.hs'', ''.lhs'', ''.elm'', ''.ml'', ''.mli'', ''.clj'', ''.cljs'', ''.cljc'',
      ''.r'', ''.R'', ''.jl'', ''.ipynb'',
      ''.sql'', ''.mysql'', ''.pgsql'', ''.plsql'', ''.tsql'', ''.ddl'', ''.dml'',
      ''.migration'', ''.up.sql'', ''.down.sql'',
      ''.cypher'', ''.gql'', ''.graphql'',
      ''.sh'', ''.bash'', ''.zsh'', ''.fish'', ''.ps1'', ''.bat'', ''.cmd'',
      ''.tf'', ''.hcl'', ''.yaml'', ''.yml'', ''.toml'',
      ''.sol'', ''.cairo'', ''.move'', ''.vy'',
      ''.lua'', ''.crystal'', ''.ex'', ''.exs'', ''.erl'', ''.hrl'', ''.pas'', ''.pp'', ''.inc'',
      ''.dpr'', ''.dpk'', ''.asm'', ''.s'', ''.S'', ''.rkt'', ''.scm'', ''.lisp'', ''.cl'',
      ''.erb'', ''.ejs'', ''.handlebars'', ''.hbs'', ''.mustache'', ''.twig'',
      ''.scss'', ''.sass'', ''.less'', ''.styl'',
      ''.asp'', ''.aspx'', ''.jsp'', ''.cfm'', ''.cfml'',
      ''.proto'', ''.thrift'', ''.avsc'', ''.avdl'',
      ''.sbt'', ''.mill'', ''.bazel'', ''.bzl'', ''.buck'',
      ''.podspec'', ''.gemspec'', ''.nuspec'']"

definition extname :: "string \<Rightarrow> string" where
  \<comment> \<open>\<open>path.extname\<close> for POSIX paths: the last component, without trailing slashes, from
      its last dot on; empty when that dot is its first character or the component is \<open>..\<close>\<close>
  "extname p =
     (let stripped = rev (dropWhile (\<lambda>c. c = CHR ''/'') (rev p));
          base = rev (takeWhile (\<lambda>c. c \<noteq> CHR ''/'') (rev stripped));
          ext = rev (takeWhile (\<lambda>c. c \<noteq> CHR ''.'') (rev base));
          pre = take (length base - length ext - 1) base
      in if CHR ''.'' \<in> set base \<and> pre \<noteq> [] \<and> base \<noteq> ''..'' then CHR ''.'' # ext else [])"

definition isSourceFile :: "string \<Rightarrow> bool" where
  "isSourceFile filepath = (toLowerCase (extname filepath) \<in> set sourceExtensions)"

subsection \<open>Renames\<close>

definition not_brace :: "char \<Rightarrow> bool" where
  "not_brace c = (c \<noteq> CHR ''}'')"

definition rename_dir_re :: "re_item list" where
  \<comment> \<open>\<open>/\{([^}]+)\s*=>\s*([^}]+)\}(.*)$/\<close>; the groups are items 1, 5 and 7\<close>
  "rename_dir_re =
     [Lit ''{'', Rep not_brace 1, Rep is_ws 0, Lit ''=>'', Rep is_ws 0, Rep not_brace 1,
      Lit ''}'', Rep is_dot 0, Eos]"

definition rename_file_re :: "re_item list" where
  \<comment> \<open>\<open>/^\{(.+)\s*=>\s*(.+)\}$/\<close>, matched at the start; the groups are items 1 and 5\<close>
  "rename_file_re =
     [Lit ''{'', Rep is_dot 1, Rep is_ws 0, Lit ''=>'', Rep is_ws 0, Rep is_dot 1, Lit ''}'', Eos]"

text \<open>The three rename patterns: the new value of \<open>cleanPath\<close>, the value of \<open>oldPath\<close>,
  and whether the pattern returned \<open>null\<close> at once (a rename to \<open>/dev/null\<close>).\<close>

definition rename_patterns :: "string \<Rightarrow> string \<times> string option \<times> bool" where
  "rename_patterns cleanPath =
     (if js_includes cleanPath ''{'' \<and> js_includes cleanPath ''}'' \<and>
         js_includes cleanPath '' => '' \<and> \<not> starts_with cleanPath ''{''
      then (case re_search rename_dir_re cleanPath of
              Some m \<Rightarrow> (js_trim (m ! 5) @ m ! 7, Some (js_trim (m ! 1) @ m ! 7), False)
            | None \<Rightarrow> (cleanPath, None, False))
      else if starts_with cleanPath ''{'' \<and> ends_with cleanPath ''}'' \<and>
              js_includes cleanPath '' => ''
      then (case re_items rename_file_re cleanPath of
              Some m \<Rightarrow> (js_trim (m ! 5), Some (js_trim (m ! 1)), js_trim (m ! 5) = ''/dev/null'')
            | None \<Rightarrow> (cleanPath, None, False))
      else if js_includes cleanPath '' => ''
      then (let parts = js_split cleanPath '' => ''
            in if length parts = 2
               then (js_trim (parts ! 1), Some (js_trim (parts ! 0)),
                     js_trim (parts ! 1) = ''/dev/null'')
               else (cleanPath, None, False))
      else (cleanPath, None, False))"

definition parseRenameInfo :: "string \<Rightarrow> RenameInfo option" where
  "parseRenameInfo filepath =
     (if filepath = [] \<or> filepath = ''/dev/null'' \<or> CHR 0x00 \<in> set filepath then None
      else (case rename_patterns (js_trim filepath) of
              (cleanPath, old, deleted) \<Rightarrow>
                if deleted then None
                else if js_includes cleanPath ''=>'' \<or> js_includes cleanPath ''{'' \<or>
                        js_includes cleanPath ''}''
                then None
                else Some \<lparr> currentPath = cleanPath, oldPath = old \<rparr>))"

subsection \<open>The loop over the lines of the log\<close>

definition numstat_re :: "re_item list" where
  \<comment> \<open>\<open>/^\d+\s+\d+\s+/\<close>, matched at the start\<close>
  "numstat_re = [Rep is_digit 1, Rep is_ws 1, Rep is_digit 1, Rep is_ws 1]"

fun canonical_of :: "(string \<times> string) list \<Rightarrow> string \<Rightarrow> string" where
  \<comment> \<open>the loop over \<open>pathMappings\<close> that leaves at the first entry whose key is the path\<close>
  "canonical_of [] p = p"
| "canonical_of ((oldP, newP) # rest) p = (if p = oldP then newP else canonical_of rest p)"

definition parseInt_or0 :: "string \<Rightarrow> int" where
  \<comment> \<open>\<open>parseInt(s) || 0\<close>\<close>
  "parseInt_or0 s = (case parseInt s of None \<Rightarrow> 0 | Some v \<Rightarrow> v)"

definition header_line :: "fetch_state \<Rightarrow> string \<Rightarrow> failure + fetch_state" where
  \<comment> \<open>a line with a \<open>|\<close>; with fewer than four parts \<open>message\<close> is \<open>undefined\<close> and
      \<open>message.toLowerCase()\<close> throws\<close>
  "header_line st line =
     (let parts = js_split line ''|''
      in if length parts < 4 then Inl TypeError
         else (let author = parts ! 1; timestamp = parts ! 2; message = parts ! 3;
                   messageLower = toLowerCase message
               in Inr (st \<lparr> currentAuthor := author,
                            currentDate := new_Date (map_option (\<lambda>t. t * 1000) (parseInt timestamp)),
                            isBugFix := list_ex (js_includes messageLower)
                                          [''fix'', ''bug'', ''patch'', ''hotfix'', ''bugfix''],
                            isFeature := list_ex (js_includes messageLower)
                                          [''feat'', ''feature'', ''add'', ''implement''],
                            isRefactor := list_ex (js_includes messageLower)
                                          [''refactor'', ''clean'', ''improve''] \<rparr>)))"

definition stat_line :: "GitCommitCollector \<Rightarrow> fetch_state \<Rightarrow> string \<Rightarrow> fetch_state" where
  \<comment> \<open>a line that matches \<open>numstat_re\<close>\<close>
  "stat_line c st line =
     (let parts = js_split line [CHR 0x09]
      in if length parts \<ge> 3
         then (let added = parseInt_or0 (parts ! 0);
                   removed = parseInt_or0 (parts ! 1);
                   rawFilepath = parts ! 2
               in case parseRenameInfo rawFilepath of
                    None \<Rightarrow> st
                  | Some renameInfo \<Rightarrow>
                      (let mappings =
                             (case oldPath renameInfo of
                                None \<Rightarrow> pathMappings st
                              | Some old \<Rightarrow>
                                  if old \<noteq> [] \<and> old \<noteq> currentPath renameInfo
                                  then map_set old (currentPath renameInfo) (pathMappings st)
                                  else pathMappings st);
                           canonicalPath = canonical_of mappings (currentPath renameInfo);
                           st1 = st \<lparr> pathMappings := mappings \<rparr>
                       in if \<not> isSourceFile canonicalPath then st1
                          else if onlyExistingFiles c \<and> \<not> existsSync c canonicalPath then st1
                          else st1 \<lparr> fileStats :=
                                 updateOrCreateFileStats canonicalPath (fileStats st1) added removed
                                   (currentAuthor st1) (currentDate st1)
                                   (isBugFix st1) (isFeature st1) (isRefactor st1) \<rparr>))
         else st)"

definition process_line :: "GitCommitCollector \<Rightarrow> fetch_state \<Rightarrow> string \<Rightarrow> failure + fetch_state" where
  \<comment> \<open>the body of the loop over the lines\<close>
  "process_line c st line =
     (if js_includes line ''|'' then header_line st line
      else if re_items numstat_re line \<noteq> None then Inr (stat_line c st line)
      else Inr st)"

fun process_lines :: "GitCommitCollector \<Rightarrow> fetch_state \<Rightarrow> string list \<Rightarrow> failure + fetch_state" where
  "process_lines c st [] = Inr st"
| "process_lines c st (line # rest) =
     (case process_line c st line of Inl e \<Rightarrow> Inl e | Inr st' \<Rightarrow> process_lines c st' rest)"

definition log_lines :: "string \<Rightarrow> string list" where
  "log_lines logOutput = filter (\<lambda>line. length line > 0) (map js_trim (js_split logOutput [CHR 0x0A]))"

definition initial_state :: "GitCommitCollector \<Rightarrow> fetch_state" where
  "initial_state c =
     \<lparr> currentAuthor = [], currentDate = now c, isBugFix = False, isFeature = False,
       isRefactor = False, pathMappings = [], fileStats = [] \<rparr>"

subsection \<open>The records returned\<close>

definition daysActive :: "FileStats \<Rightarrow> real option" where
  \<comment> \<open>\<open>Math.max(Math.ceil((last - first) / (24 * 60 * 60 * 1000)), 1)\<close>; \<open>None\<close> is
      \<open>NaN\<close>: one of the two dates is invalid\<close>
  "daysActive stats =
     (case (fs_last_commit stats, fs_first_commit stats) of
        (Date l, Date f) \<Rightarrow>
          Some (real_of_int (max \<lceil>real_of_int (l - f) / (24 * 60 * 60 * 1000)\<rceil> 1))
      | _ \<Rightarrow> None)"

definition result_record ::
  "GitCommitCollector \<Rightarrow> string \<Rightarrow> FileStats \<Rightarrow> real option CommitData" where
  \<comment> \<open>the object pushed for one entry of \<open>fileStats\<close>; a division by \<open>NaN\<close> is \<open>NaN\<close>\<close>
  "result_record c filepath stats =
     (let numAuthors = int (length (fs_authors stats));
          numCommits = fs_commits stats;
          churn' = fs_lines_added stats + fs_lines_deleted stats
      in \<lparr> module = filepath, filename = filepath, repo_name = repoName c,
           commits = real_of_int numCommits, authors = real_of_int numAuthors,
           author_names = fs_authors stats,
           lines_added = real_of_int (fs_lines_added stats),
           lines_deleted = real_of_int (fs_lines_deleted stats),
           churn = real_of_int churn',
           bug_commits = real_of_int (fs_bug_commits stats),
           refactor_commits = real_of_int (fs_refactor_commits stats),
           feature_commits = real_of_int (fs_feature_commits stats),
           lines_per_author =
             (if numAuthors > 0 then real_of_int (fs_lines_added stats) / real_of_int numAuthors else 0),
           churn_per_commit =
             (if numCommits > 0 then real_of_int churn' / real_of_int numCommits else 0),
           bug_ratio =
             (if numCommits > 0 then real_of_int (fs_bug_commits stats) / real_of_int numCommits else 0),
           days_active = daysActive stats,
           commits_per_day = map_option (\<lambda>days. real_of_int numCommits / days) (daysActive stats),
           created_at = fs_first_commit stats,
           last_modified = fs_last_commit stats,
           degradation_days = None, net_lines = None, code_stability = None,
           is_high_churn_commit = None, bug_commit_rate = None, commits_squared = None,
           author_concentration = None, lines_per_commit = None, churn_rate = None,
           modification_ratio = None, churn_per_author = None, deletion_rate = None,
           commit_density = None \<rparr>)"

text \<open>The loop over \<open>fileStats\<close>: one record for every entry, in the order of the map.\<close>

fun results_of ::
  "GitCommitCollector \<Rightarrow> (string \<times> FileStats) list \<Rightarrow> real option CommitData list" where
  "results_of c [] = []"
| "results_of c ((filepath, stats) # rest) = result_record c filepath stats # results_of c rest"

definition fetch_lines ::
  "GitCommitCollector \<Rightarrow> string list \<Rightarrow> failure + real option CommitData list" where
  \<comment> \<open>\<open>fetchCommitData\<close> from the cleaned lines on: the loop over the lines, then the loop
      over \<open>fileStats\<close>\<close>
  "fetch_lines c ls =
     (case process_lines c (initial_state c) ls of
        Inl e \<Rightarrow> Inl e
      | Inr st \<Rightarrow> Inr (results_of c (fileStats st)))"

definition fetchCommitData ::
  "GitCommitCollector \<Rightarrow> string \<Rightarrow> failure + real option CommitData list" where
  \<comment> \<open>the second argument is the output of \<open>git log\<close>\<close>
  "fetchCommitData c logOutput = fetch_lines c (log_lines logOutput)"

section \<open>Notions of the specification\<close>

subsection \<open>Tree descent\<close>

text \<open>
  The descent as the specification words it, on node numbers: at a node whose left-child
  entry is the leaf sentinel \<open>-1\<close> the result is the weight of the node; otherwise the
  descent moves to the left child exactly when the feature vector has a value at the
  split feature index of the node and that value is strictly below the split threshold,
  and to the right child otherwise.
\<close>

definition feature_below :: "real list \<Rightarrow> int \<Rightarrow> real \<Rightarrow> bool" where
  "feature_below fv idx thr = (0 \<le> idx \<and> idx < int (length fv) \<and> fv ! nat idx < thr)"

inductive descent :: "XGBoostTree \<Rightarrow> real list \<Rightarrow> nat \<Rightarrow> real \<Rightarrow> bool"
  for tree :: XGBoostTree and fv :: "real list" where
  at_leaf: "left_children tree ! i = - 1 \<Longrightarrow> descent tree fv i (base_weights tree ! i)"
| go_left: "left_children tree ! i \<noteq> - 1 \<Longrightarrow>
            feature_below fv (split_indices tree ! i) (split_conditions tree ! i) \<Longrightarrow>
            descent tree fv (nat (left_children tree ! i)) w \<Longrightarrow> descent tree fv i w"
| go_right: "left_children tree ! i \<noteq> - 1 \<Longrightarrow>
            \<not> feature_below fv (split_indices tree ! i) (split_conditions tree ! i) \<Longrightarrow>
            descent tree fv (nat (right_children tree ! i)) w \<Longrightarrow> descent tree fv i w"

text \<open>
  A node is well formed when its entries exist in the arrays and it is a leaf with a
  weight or a split whose two children are well formed nodes; a tree is well formed when
  its root, node 0, is.  Being inductive, the notion excludes cycles.
\<close>

inductive wf_node :: "XGBoostTree \<Rightarrow> nat \<Rightarrow> bool" for tree :: XGBoostTree where
  wf_leaf: "i < length (left_children tree) \<Longrightarrow> left_children tree ! i = - 1 \<Longrightarrow>
            i < length (base_weights tree) \<Longrightarrow> wf_node tree i"
| wf_split: "i < length (left_children tree) \<Longrightarrow> left_children tree ! i \<noteq> - 1 \<Longrightarrow>
            0 \<le> left_children tree ! i \<Longrightarrow>
            i < length (right_children tree) \<Longrightarrow> 0 \<le> right_children tree ! i \<Longrightarrow>
            i < length (split_indices tree) \<Longrightarrow> i < length (split_conditions tree) \<Longrightarrow>
            wf_node tree (nat (left_children tree ! i)) \<Longrightarrow>
            wf_node tree (nat (right_children tree ! i)) \<Longrightarrow> wf_node tree i"

definition well_formed :: "XGBoostTree \<Rightarrow> bool" where
  "well_formed tree = wf_node tree 0"

subsection \<open>Lines of the log and statistics\<close>

text \<open>A line starts with two numeric columns when it begins with a sequence of decimal
  digits, white space, a second sequence of decimal digits and white space.\<close>

definition numeric_columns :: "string \<Rightarrow> bool" where
  "numeric_columns line =
     (let r1 = dropWhile is_digit line; r2 = dropWhile is_ws r1; r3 = dropWhile is_digit r2
      in takeWhile is_digit line \<noteq> [] \<and> takeWhile is_ws r1 \<noteq> [] \<and>
         takeWhile is_digit r2 \<noteq> [] \<and> takeWhile is_ws r3 \<noteq> [])"

text \<open>Every entry of the aggregation map has its first commit no later than its last.\<close>

definition dates_ordered :: "(string \<times> FileStats) list \<Rightarrow> bool" where
  "dates_ordered stats = (\<forall>(p, s) \<in> set stats. date_le (fs_first_commit s) (fs_last_commit s))"


definition summary :: "'n CommitData \<Rightarrow> string \<times> real \<times> real \<times> real" where
  \<comment> \<open>path, commit count, lines added and lines deleted of a record\<close>
  "summary r = (module r, commits r, lines_added r, lines_deleted r)"

definition summaries ::
  "failure + 'n CommitData list \<Rightarrow> failure + (string \<times> real \<times> real \<times> real) list" where
  "summaries res = map_sum id (map summary) res"


subsection \<open>Sample data\<close>

text \<open>A model without trees and without base score (the model of the repository's
  scorer tests), and one without trees whose base score is the text \<open>[-1.201454E-2]\<close>.\<close>

definition empty_model :: XGBoostModel where
  "empty_model = \<lparr> base_score = None, trees = Some [], feature_names = None,
                   learner_feature_names = Some [''f1'', ''f2'', ''f3''], feature_count = 26 \<rparr>"

definition scored_model :: XGBoostModel where
  "scored_model = \<lparr> base_score = Some ''[-1.201454E-2]'', trees = None, feature_names = None,
                    learner_feature_names = None, feature_count = 26 \<rparr>"

text \<open>A tree of one split on feature 0 at threshold 50 with two leaves.\<close>

definition stump :: XGBoostTree where
  "stump = \<lparr> base_weights = [0, 0.1, - 0.1], left_children = [1, - 1, - 1],
             right_children = [2, - 1, - 1], split_conditions = [50, 0, 0],
             split_indices = [0, 0, 0] \<rparr>"

definition unloaded :: XGBoostPredictor where
  "unloaded = \<lparr> model = None \<rparr>"

text \<open>Two collectors: one that takes every file, one restricted to the files that exist,
  where only \<open>C.ts\<close> exists.\<close>

definition col :: GitCommitCollector where
  "col = \<lparr> onlyExistingFiles = False, existsSync = (\<lambda>_. False), repoName = ''repo'',
           now = Date 1700000000000 \<rparr>"

definition col_existing :: GitCommitCollector where
  "col_existing = \<lparr> onlyExistingFiles = True, existsSync = (\<lambda>p. p = ''C.ts''),
                    repoName = ''repo'', now = Date 1700000000000 \<rparr>"

text \<open>A history, newest commit first, in which \<open>A.ts\<close> is created, renamed to \<open>B.ts\<close> and
  then renamed to \<open>C.ts\<close>.\<close>

definition rename_log :: string where
  "rename_log =
     ''c3|dev@x.org|1700000300|rename to C'' @ [CHR 0x0A] @
     ''1'' @ [CHR 0x09] @ ''1'' @ [CHR 0x09] @ ''B.ts => C.ts'' @ [CHR 0x0A] @
     ''c2|dev@x.org|1700000200|rename to B'' @ [CHR 0x0A] @
     ''2'' @ [CHR 0x09] @ ''2'' @ [CHR 0x09] @ ''A.ts => B.ts'' @ [CHR 0x0A] @
     ''c1|dev@x.org|1700000100|create A'' @ [CHR 0x0A] @
     ''10'' @ [CHR 0x09] @ ''0'' @ [CHR 0x09] @ ''A.ts''"



definition two_day_record :: "real CommitData" where
  "two_day_record =
     \<lparr> module = ''src/parser.ts'', filename = ''src/parser.ts'', repo_name = ''repo'',
       commits = 2, authors = 1, author_names = [''dev@x.org''], lines_added = 14,
       lines_deleted = 1, churn = 15, bug_commits = 1, refactor_commits = 0,
       feature_commits = 1, lines_per_author = 14, churn_per_commit = 15 / 2,
       bug_ratio = 1 / 2, days_active = 2, commits_per_day = 1,
       created_at = Date 1700000000000, last_modified = Date 1700090000000,
       degradation_days = None, net_lines = None, code_stability = None,
       is_high_churn_commit = None, bug_commit_rate = None, commits_squared = None,
       author_concentration = None, lines_per_commit = None, churn_rate = None,
       modification_ratio = None, churn_per_author = None, deletion_rate = None,
       commit_density = None \<rparr>"


text \<open>A history of one commit to one file.\<close>

definition one_commit_log :: string where
  "one_commit_log =
     ''c1|dev@x.org|1700000000|add parser'' @ [CHR 0x0A] @
     ''10'' @ [CHR 0x09] @ ''0'' @ [CHR 0x09] @ ''src/parser.ts''"

text \<open>A commit header, the line of a source file with numeric columns, and the line that
  \<open>git log --numstat\<close> prints for a binary file: for a source file, and for a file whose
  name has \<open>|\<close> in it.\<close>

definition header_sample :: string where
  "header_sample = ''c1|dev@x.org|1700000000|add parser''"

definition stat_sample :: string where
  "stat_sample = ''10'' @ [CHR 0x09] @ ''0'' @ [CHR 0x09] @ ''src/parser.ts''"

definition binary_source_line :: string where
  "binary_source_line = ''-'' @ [CHR 0x09] @ ''-'' @ [CHR 0x09] @ ''src/app.ts''"

definition barred_binary_line :: string where
  "barred_binary_line = ''-'' @ [CHR 0x09] @ ''-'' @ [CHR 0x09] @ ''docs/a|b|c|fix.png''"

text \<open>The history of one commit with the line of that binary file before the line of the
  source file.\<close>

definition barred_binary_log :: string where
  "barred_binary_log =
     header_sample @ [CHR 0x0A] @ barred_binary_line @ [CHR 0x0A] @ stat_sample"

text \<open>A history in which \<open>new/file.ts\<close> is named by a binary line only, and
  \<open>src/old/file.ts\<close> is moved to \<open>src/new/file.ts\<close>.\<close>

definition moved_log :: string where
  "moved_log =
     ''c1|dev@x.org|1700000000|move file'' @ [CHR 0x0A] @
     ''-'' @ [CHR 0x09] @ ''-'' @ [CHR 0x09] @ ''new/file.ts'' @ [CHR 0x0A] @
     ''0'' @ [CHR 0x09] @ ''0'' @ [CHR 0x09] @ ''src/{old => new}/file.ts''"

definition sample_stats :: "(string \<times> FileStats) list" where
  "sample_stats =
     [(''a.ts'', \<lparr> fs_lines_added = 3, fs_lines_deleted = 1, fs_commits = 2,
                   fs_authors = [''dev@x.org''], fs_bug_commits = 0,
                   fs_first_commit = Date 200, fs_last_commit = Date 300,
                   fs_feature_commits = 1, fs_refactor_commits = 0 \<rparr>)]"

text \<open>A state of the loop in the middle of a run.\<close>

definition busy_state :: fetch_state where
  "busy_state =
     \<lparr> currentAuthor = ''dev@x.org'', currentDate = Date 1700000000000, isBugFix = False,
       isFeature = True, isRefactor = False, pathMappings = [(''old.ts'', ''a.ts'')],
       fileStats = sample_stats \<rparr>"

section \<open>Properties of the scorer\<close>

subsection \<open>Binary64 rounding\<close>

text \<open>The value of \<open>f64\<close> at a number whose binary exponent is known.\<close>

lemma pow2_powr: "pow2 e = 2 powr real_of_int e"
  by (simp add: pow2_def powr_real_of_int inverse_eq_divide)

lemma f64_eq:
  assumes "pow2 e \<le> \<bar>x\<bar>" "\<bar>x\<bar> < pow2 (e + 1)" "- 1022 \<le> e"
  shows "f64 x = real_of_int (round_even (x / pow2 (e - 52))) * pow2 (e - 52)"
proof -
  have "0 < pow2 e" by (simp add: pow2_def)
  with assms(1) have pos: "0 < \<bar>x\<bar>" by linarith
  have "\<lfloor>log 2 \<bar>x\<bar>\<rfloor> = e"
    using assms(1,2) pos by (subst floor_log_eq_powr_iff) (simp_all add: pow2_powr)
  then show ?thesis using pos assms(3) by (simp add: f64_def Let_def max_def)
qed

lemmas f64_calc = pow2_def round_even_def Let_def

lemma f64_zero: "f64 0 = 0"
  by (simp add: f64_def)

lemma f64_half: "f64 (1 / 2) = 1 / 2"
  by (subst f64_eq[where e = "- 1"]) (simp_all add: f64_calc)

lemma f64_tenth: "f64 0.1 = 3602879701896397 / 2 ^ 55"
  by (subst f64_eq[where e = "- 4"]) (simp_all add: f64_calc)

lemma f64_fifth: "f64 0.2 = 3602879701896397 / 2 ^ 54"
  by (subst f64_eq[where e = "- 3"]) (simp_all add: f64_calc)

lemma f64_TRAIN_MEAN: "f64 TRAIN_MEAN = - 3170534137668829 / 2 ^ 58"
  unfolding TRAIN_MEAN_def
  by (subst f64_eq[where e = "- 7"]) (simp_all add: f64_calc)

subsection \<open>Risk categories\<close>

text \<open>
  Claim C3.  For every calibrated score \<open>s\<close> the category is \<open>improved\<close> exactly when
  \<open>s < 0\<close>, \<open>stable\<close> exactly when \<open>0 \<le> s \<le> 0.1\<close>, \<open>degraded\<close> exactly when
  \<open>0.1 < s \<le> 0.2\<close> and \<open>severely_degraded\<close> exactly when \<open>s > 0.2\<close>: the bounds 0.1 and 0.2
  belong to the lower category, 0 belongs to \<open>stable\<close>, and the four conditions are
  exclusive and exhaustive, so every real score has exactly one label.
\<close>

theorem getRiskCategory_bins:
  "(getRiskCategory s = IMPROVED \<longleftrightarrow> s < 0) \<and>
   (getRiskCategory s = STABLE \<longleftrightarrow> 0 \<le> s \<and> s \<le> 0.1) \<and>
   (getRiskCategory s = DEGRADED \<longleftrightarrow> 0.1 < s \<and> s \<le> 0.2) \<and>
   (getRiskCategory s = SEVERELY_DEGRADED \<longleftrightarrow> 0.2 < s)"
  by (simp add: getRiskCategory_def)

text \<open>The boundary values named by the specification.\<close>

lemma getRiskCategory_boundaries:
  "getRiskCategory 0.1 = STABLE" "getRiskCategory 0.100001 = DEGRADED"
  "getRiskCategory 0.2 = DEGRADED" "getRiskCategory 0.200001 = SEVERELY_DEGRADED"
  "getRiskCategory 0 = STABLE" "getRiskCategory (- 0.000001) = IMPROVED"
  by (simp_all add: getRiskCategory_def)

text \<open>On binary64 scores the bounds are the binary64 numbers written \<open>0.1\<close> and \<open>0.2\<close>,
  which lie just above the decimal numbers: the two functions agree on every score that
  is not between a decimal bound and its binary64 number.\<close>

lemma getRiskCategory_f64_agrees:
  assumes "s \<le> 0.1 \<or> f64 0.1 < s" "s \<le> 0.2 \<or> f64 0.2 < s"
  shows "getRiskCategory_f64 s = getRiskCategory s"
proof -
  have a: "(0.1 :: real) \<le> 3602879701896397 / 2 ^ 55" by simp
  have b: "(0.2 :: real) \<le> 3602879701896397 / 2 ^ 54" by simp
  show ?thesis
    using assms a b unfolding getRiskCategory_f64_def getRiskCategory_def f64_tenth f64_fifth
    by (auto simp del: divide_le_eq_numeral1 le_divide_eq_numeral1)
qed

lemma getRiskCategory_f64_boundaries:
  "getRiskCategory_f64 (f64 0.1) = STABLE" "getRiskCategory_f64 (f64 0.2) = DEGRADED"
  "getRiskCategory_f64 0 = STABLE"
  unfolding getRiskCategory_f64_def f64_tenth f64_fifth by simp_all

subsection \<open>The feature vector\<close>

text \<open>
  Claim C8.  For a record whose 26 fields, in the order commits, authors, lines_added,
  lines_deleted, churn, bug_commits, refactor_commits, feature_commits, lines_per_author,
  churn_per_commit, bug_ratio, days_active, commits_per_day, degradation_days, net_lines,
  code_stability, is_high_churn_commit, bug_commit_rate, commits_squared,
  author_concentration, lines_per_commit, churn_rate, modification_ratio,
  churn_per_author, deletion_rate, commit_density, are set to 1 to 26,
  \<open>extractFeatureVector\<close> returns the list of 1 to 26.
\<close>

theorem extractFeatureVector_order:
  "extractFeatureVector
     (r \<lparr> commits := 1, authors := 2, lines_added := 3, lines_deleted := 4, churn := 5,
          bug_commits := 6, refactor_commits := 7, feature_commits := 8,
          lines_per_author := 9, churn_per_commit := 10, bug_ratio := 11, days_active := 12,
          commits_per_day := 13, degradation_days := Some 14, net_lines := Some 15,
          code_stability := Some 16, is_high_churn_commit := Some 17,
          bug_commit_rate := Some 18, commits_squared := Some 19,
          author_concentration := Some 20, lines_per_commit := Some 21,
          churn_rate := Some 22, modification_ratio := Some 23, churn_per_author := Some 24,
          deletion_rate := Some 25, commit_density := Some 26 \<rparr>)
   = [1, 2, 3, 4, 5, 6, 7, 8, 9, 10, 11, 12, 13, 14, 15, 16, 17, 18, 19, 20, 21, 22, 23, 24, 25, 26]"
  by (simp add: extractFeatureVector_def or0_def)

subsection \<open>Predicting before and after loading\<close>

text \<open>
  Claim C7.  On a scorer whose model is not loaded, \<open>predict\<close> raises the error with the
  fixed message for every batch, returns no prediction and leaves the scorer unloaded.
  Once \<open>loadModel\<close> has run, the model is present, and whatever \<open>predict\<close> returns on any
  batch is not that error and leaves the scorer loaded.
\<close>

theorem predict_usage_error:
  "(model p = None \<longrightarrow> predict p commitData = Some (Inl not_loaded, p)) \<and>
   model (loadModel bundled p) \<noteq> None \<and>
   (\<forall>r q. predict (loadModel bundled p) commitData = Some (r, q) \<longrightarrow>
          r \<noteq> Inl not_loaded \<and> q = loadModel bundled p)"
  by (auto simp: predict_def loadModel_def Let_def split: option.splits)

text \<open>A batch of the one raw score 0.5: the mean is 0.5, the deviation 0, and the score is
  calibrated to the binary64 number \<open>-0.011\<close>.\<close>

lemma calibrate_f64_half: "calibratePredictions_f64 [1 / 2] = [f64 TRAIN_MEAN]"
  by (simp add: calibratePredictions_f64_def Let_def fadd_def fdiv_def fsub_def fsquare_def
                fsqrt_def f64_half f64_zero)

lemma predict_loaded_sample:
  "map_option (map_sum id (map risk_category) \<circ> fst)
     (predict (loadModel empty_model unloaded) [two_day_record]) = Some (Inr [IMPROVED])"
  by (simp add: predict_def loadModel_def unloaded_def empty_model_def transform_def
                predictSingle_def model_trees_def baseScore_def calibrate_batch_def
                f64_half calibrate_f64_half f64_TRAIN_MEAN getRiskCategory_f64_def)

theorem predict_usage_error_witness:
  "model unloaded = None \<and>
   predict unloaded [two_day_record] = Some (Inl not_loaded, unloaded) \<and>
   model (loadModel empty_model unloaded) \<noteq> None \<and>
   map_option (map_sum id (map risk_category) \<circ> fst)
     (predict (loadModel empty_model unloaded) [two_day_record]) = Some (Inr [IMPROVED])"
  using predict_usage_error[of unloaded "[two_day_record]" empty_model] predict_loaded_sample
  by (simp add: unloaded_def)

subsection \<open>An ensemble without trees\<close>

lemma sigmoid_half: "sigmoid (1 / 2) \<noteq> 1 / 2"
proof
  assume "sigmoid (1 / 2) = 1 / 2"
  then have "1 + exp (- (1 / 2) :: real) = 2"
    by (simp add: sigmoid_def field_simps)
  then have "exp (- (1 / 2) :: real) = exp 0" by simp
  then have "(- (1 / 2) :: real) = 0" by (simp only: exp_inj_iff)
  then show False by simp
qed

text \<open>
  Claim C1 says that with zero trees the raw score is the logistic function of the base
  score.  The model without trees and without base score refutes it: its base score is
  the default 0.5, the raw score returned is 0.5 itself, and the logistic function of 0.5
  is not 0.5.
\<close>

theorem zero_trees_sigmoid_counterexample:
  "model_trees empty_model = [] \<and> baseScore empty_model = Some 0.5 \<and>
   predictSingle empty_model [] = Some (Some 0.5) \<and>
   predictSingle empty_model [] \<noteq> Some (map_option sigmoid (baseScore empty_model))"
  using sigmoid_half
  by (simp add: predictSingle_def model_trees_def baseScore_def empty_model_def)

text \<open>
  Claim C1, amended.  For every feature vector, when the ensemble of the loaded model has
  zero trees, the raw score returned is the base score itself, without the logistic
  function: the number parsed from the bracket-wrapped text of the learner parameters, or
  0.5 when that text is absent, empty or has no bracket-wrapped part.
\<close>

theorem zero_trees_base_score:
  "model_trees m = [] \<Longrightarrow> predictSingle m fv = Some (baseScore m)"
  by (simp add: predictSingle_def)

lemma scored_model_base: "baseScore scored_model = Some (- 0.01201454)"
  by (simp add: baseScore_def scored_model_def base_score_re_def parseFloat_def is_digit_def
                is_ws_def strip_sign_def digits_val_def digit_val_def)

theorem zero_trees_base_score_witness:
  "model_trees scored_model = [] \<and>
   predictSingle scored_model [1, 2] = Some (Some (- 0.01201454))"
  using zero_trees_base_score[of scored_model "[1, 2]"] scored_model_base
  by (simp add: model_trees_def scored_model_def)

subsection \<open>Walking a tree\<close>

lemma js_lt_feature_below:
  "i < length (split_indices tree) \<Longrightarrow> i < length (split_conditions tree) \<Longrightarrow>
   js_lt (aread fv (aread (split_indices tree) (Some (int i))))
         (aread (split_conditions tree) (Some (int i)))
   = feature_below fv (split_indices tree ! i) (split_conditions tree ! i)"
  by (auto simp: js_lt_def aread_def feature_below_def)

lemma loop_descent:
  "wf_node tree i \<Longrightarrow>
   \<exists>w. predictTree_loop tree fv (Some (int i)) = Some (Some w) \<and> descent tree fv i w"
proof (induction rule: wf_node.induct)
  case (wf_leaf i)
  then show ?case
    by (subst predictTree_loop.simps) (auto simp: aread_def intro: descent.at_leaf)
next
  case (wf_split i)
  from wf_split.IH obtain wl wr where
    l: "predictTree_loop tree fv (Some (int (nat (left_children tree ! i)))) = Some (Some wl)"
       "descent tree fv (nat (left_children tree ! i)) wl" and
    r: "predictTree_loop tree fv (Some (int (nat (right_children tree ! i)))) = Some (Some wr)"
       "descent tree fv (nat (right_children tree ! i)) wr"
    by blast
  have notleaf: "aread (left_children tree) (Some (int i)) \<noteq> Some (- 1)"
    using wf_split.hyps by (simp add: aread_def)
  have al: "aread (left_children tree) (Some (int i)) = Some (int (nat (left_children tree ! i)))"
    and ar: "aread (right_children tree) (Some (int i)) = Some (int (nat (right_children tree ! i)))"
    using wf_split.hyps by (simp_all add: aread_def)
  show ?case
  proof (cases "feature_below fv (split_indices tree ! i) (split_conditions tree ! i)")
    case True
    then have "predictTree_loop tree fv (Some (int i)) = Some (Some wl)"
      using notleaf wf_split.hyps l(1)
      by (subst predictTree_loop.simps) (simp add: js_lt_feature_below al)
    moreover have "descent tree fv i wl"
      using True wf_split.hyps l(2) by (blast intro: descent.go_left)
    ultimately show ?thesis by blast
  next
    case False
    then have "predictTree_loop tree fv (Some (int i)) = Some (Some wr)"
      using notleaf wf_split.hyps r(1)
      by (subst predictTree_loop.simps) (simp add: js_lt_feature_below ar)
    moreover have "descent tree fv i wr"
      using False wf_split.hyps r(2) by (blast intro: descent.go_right)
    ultimately show ?thesis by blast
  qed
qed

lemma descent_deterministic:
  "descent tree fv i w \<Longrightarrow> descent tree fv i w' \<Longrightarrow> w' = w"
proof (induction arbitrary: w' rule: descent.induct)
  case (at_leaf i)
  from at_leaf.prems show ?case
  proof (cases rule: descent.cases)
    case at_leaf
    then show ?thesis by simp
  next
    case go_left
    with at_leaf.hyps show ?thesis by simp
  next
    case go_right
    with at_leaf.hyps show ?thesis by simp
  qed
next
  case (go_left i w)
  from go_left.prems show ?case
  proof (cases rule: descent.cases)
    case at_leaf
    with go_left.hyps show ?thesis by simp
  next
    case inner: go_left
    from inner(3) show ?thesis by (rule go_left.IH)
  next
    case go_right
    with go_left.hyps show ?thesis by simp
  qed
next
  case (go_right i w)
  from go_right.prems show ?case
  proof (cases rule: descent.cases)
    case at_leaf
    with go_right.hyps show ?thesis by simp
  next
    case go_left
    with go_right.hyps show ?thesis by simp
  next
    case inner: go_right
    from inner(3) show ?thesis by (rule go_right.IH)
  qed
qed

text \<open>
  Claim C5.  For every well formed tree and every feature vector, the evaluation of the
  tree returns, and what it returns is a weight that the descent of the specification
  reaches from the root: the weight of the first node on the way whose left-child entry
  is the leaf sentinel, going left exactly when the value of the vector at the split
  feature index is strictly below the split threshold and right otherwise (so a value
  equal to the threshold goes right).  The descent reaches no other weight.
\<close>

theorem predictTree_descent:
  assumes "well_formed tree"
  shows "\<exists>w. predictTree tree fv = Some (Some w) \<and> descent tree fv 0 w \<and>
             (\<forall>w'. descent tree fv 0 w' \<longrightarrow> w' = w)"
proof -
  from assms obtain w where
    w: "predictTree_loop tree fv (Some (int 0)) = Some (Some w)" "descent tree fv 0 w"
    unfolding well_formed_def using loop_descent[of tree 0 fv] by blast
  have "predictTree tree fv = Some (Some w)"
    using w(1) by (simp add: predictTree_def)
  moreover have "\<forall>w'. descent tree fv 0 w' \<longrightarrow> w' = w"
    using descent_deterministic[OF w(2)] by blast
  ultimately show ?thesis using w(2) by blast
qed

lemma stump_wf: "well_formed stump"
proof -
  have l: "wf_node stump 1" by (rule wf_node.wf_leaf) (simp_all add: stump_def)
  have r: "wf_node stump 2" by (rule wf_node.wf_leaf) (simp_all add: stump_def)
  show ?thesis unfolding well_formed_def
    by (rule wf_node.wf_split) (use l r in \<open>simp_all add: stump_def\<close>)
qed

lemma stump_values:
  "predictTree stump [50] = Some (Some (- 0.1))" "predictTree stump [30] = Some (Some 0.1)"
  by (simp_all add: predictTree_def predictTree_loop.simps aread_def js_lt_def stump_def)

theorem predictTree_descent_witness:
  "well_formed stump \<and> predictTree stump [50] = Some (Some (- 0.1)) \<and>
   descent stump [50] 0 (- 0.1) \<and> predictTree stump [30] = Some (Some 0.1)"
proof -
  from predictTree_descent[OF stump_wf, of "[50]"] obtain w where
    "predictTree stump [50] = Some (Some w)" "descent stump [50] 0 w" by blast
  with stump_values stump_wf show ?thesis by simp
qed

subsection \<open>Calibration in exact arithmetic\<close>

text \<open>In exact arithmetic a non-empty batch of equal scores has deviation zero and every
  score is calibrated to \<open>-0.011\<close>.\<close>

lemma foldl_add_const: "foldl (\<lambda>a b. a + b) a (replicate n c) = a + real n * (c::real)"
  by (induction n arbitrary: a) (simp_all add: algebra_simps)

lemma foldl_sq_zero: "foldl (\<lambda>sum pred. sum + (pred - c) ^ 2) a (replicate n c) = (a::real)"
  by (induction n arbitrary: a) simp_all

lemma all_equal_replicate: "\<forall>x \<in> set xs. x = c \<Longrightarrow> xs = replicate (length xs) c"
  by (induction xs) auto

lemma calibrate_equal_exact:
  assumes "predictions \<noteq> []" "\<forall>x \<in> set predictions. x = c"
  shows "calibratePredictions predictions = map (\<lambda>_. - 0.011) predictions"
proof -
  define n where "n = length predictions"
  have n: "n > 0" using assms(1) by (simp add: n_def)
  have xs: "predictions = replicate n c"
    using all_equal_replicate[OF assms(2)] by (simp add: n_def)
  have mean: "foldl (\<lambda>a b. a + b) 0 predictions / real (length predictions) = c"
    using n by (subst xs, subst xs) (simp add: foldl_add_const)
  show ?thesis unfolding calibratePredictions_def mean Let_def
    by (subst (1) xs) (simp add: foldl_sq_zero TRAIN_MEAN_def)
qed

subsection \<open>Calibration in binary64 arithmetic\<close>

text \<open>
  Claim C4 says that a non-empty batch of equal raw scores is calibrated to exactly
  \<open>-0.011\<close> throughout.  In binary64 arithmetic the batch of three scores 0.1 refutes it:
  the sum \<open>0.1 + 0.1 + 0.1\<close> rounds to \<open>0.30000000000000004\<close>, the mean to
  \<open>0.10000000000000002\<close>, the deviation of each score from it is \<open>-2^-56\<close>, the standard
  deviation \<open>2^-56\<close> is greater than zero, and every score is calibrated to the binary64
  number \<open>-0.093\<close>, not to the binary64 number \<open>-0.011\<close>.
\<close>

theorem calibrate_f64_equal_batch:
  "calibratePredictions_f64 [f64 0.1, f64 0.1, f64 0.1]
   = [- 3350678122763649 / 2 ^ 55, - 3350678122763649 / 2 ^ 55, - 3350678122763649 / 2 ^ 55] \<and>
   f64 TRAIN_MEAN = - 3170534137668829 / 2 ^ 58 \<and>
   - 3350678122763649 / 2 ^ 55 \<noteq> f64 TRAIN_MEAN"
proof -
  define d :: real where "d = 3602879701896397 / 2 ^ 55"
  define d2 :: real where "d2 = 3602879701896397 / 2 ^ 54"
  define s :: real where "s = 1351079888211149 / 2 ^ 52"
  define m :: real where "m = 7205759403792795 / 2 ^ 56"
  define dev :: real where "dev = - 1 / 2 ^ 56"
  define q :: real where "q = 1 / 2 ^ 112"
  define v2 :: real where "v2 = 1 / 2 ^ 111"
  define v3 :: real where "v3 = 3 / 2 ^ 112"
  define sd :: real where "sd = 1 / 2 ^ 56"
  define ts :: real where "ts = 5908722711110091 / 2 ^ 56"
  define tm :: real where "tm = - 3170534137668829 / 2 ^ 58"
  define sc :: real where "sc = - 3350678122763649 / 2 ^ 55"
  define lo :: real where "lo = - 2841771364870783 / 2 ^ 52"
  define hi :: real where "hi = 1499698675914375 / 2 ^ 51"
  define tmin :: real where "tmin = - 4782822804267467 / 2 ^ 53"
  define tmax :: real where "tmax = 5098074778183401 / 2 ^ 53"
  have c_d: "f64 0.1 = d" unfolding d_def
    by (subst f64_eq[where e = "- 4"]) (simp_all add: f64_calc)
  have c_ts: "f64 TRAIN_STD = ts" unfolding ts_def TRAIN_STD_def
    by (subst f64_eq[where e = "- 4"]) (simp_all add: f64_calc)
  have c_tm: "f64 TRAIN_MEAN = tm" unfolding tm_def TRAIN_MEAN_def
    by (subst f64_eq[where e = "- 7"]) (simp_all add: f64_calc)
  have c_tmin: "f64 TRAIN_MIN = tmin" unfolding tmin_def TRAIN_MIN_def
    by (subst f64_eq[where e = "- 1"]) (simp_all add: f64_calc)
  have c_tmax: "f64 TRAIN_MAX = tmax" unfolding tmax_def TRAIN_MAX_def
    by (subst f64_eq[where e = "- 1"]) (simp_all add: f64_calc)
  have a1: "fadd 0 d = d" unfolding fadd_def d_def
    by (subst f64_eq[where e = "- 4"]) (simp_all add: f64_calc)
  have a2: "fadd d d = d2" unfolding fadd_def d_def d2_def
    by (subst f64_eq[where e = "- 3"]) (simp_all add: f64_calc)
  have a3: "fadd d2 d = s" unfolding fadd_def d_def d2_def s_def
    by (subst f64_eq[where e = "- 2"]) (simp_all add: f64_calc)
  have mean: "fdiv s 3 = m" unfolding fdiv_def s_def m_def
    by (subst f64_eq[where e = "- 4"]) (simp_all add: f64_calc)
  have dv: "fsub d m = dev" unfolding fsub_def d_def m_def dev_def
    by (subst f64_eq[where e = "- 56"]) (simp_all add: f64_calc)
  have p: "dev ^ 2 = q" unfolding dev_def q_def
    by (simp add: power2_eq_square)
  have sq: "fsquare dev = q" unfolding fsquare_def p unfolding q_def
    by (subst f64_eq[where e = "- 112"]) (simp_all add: f64_calc)
  have b1: "fadd 0 q = q" unfolding fadd_def q_def
    by (subst f64_eq[where e = "- 112"]) (simp_all add: f64_calc)
  have b2: "fadd q q = v2" unfolding fadd_def q_def v2_def
    by (subst f64_eq[where e = "- 111"]) (simp_all add: f64_calc)
  have b3: "fadd v2 q = v3" unfolding fadd_def q_def v2_def v3_def
    by (subst f64_eq[where e = "- 111"]) (simp_all add: f64_calc)
  have var: "fdiv v3 3 = q" unfolding fdiv_def q_def v3_def
    by (subst f64_eq[where e = "- 112"]) (simp_all add: f64_calc)
  have root: "sqrt q = sd" unfolding q_def sd_def
    by (rule real_sqrt_unique) (simp_all add: power2_eq_square)
  have std: "fsqrt q = sd" unfolding fsqrt_def root unfolding sd_def
    by (subst f64_eq[where e = "- 56"]) (simp_all add: f64_calc)
  have z: "fdiv dev sd = - 1" unfolding fdiv_def dev_def sd_def
    by (subst f64_eq[where e = "0"]) (simp_all add: f64_calc)
  have zs: "fmul (- 1) ts = - ts" unfolding fmul_def ts_def
    by (subst f64_eq[where e = "- 4"]) (simp_all add: f64_calc)
  have scaled: "fadd (- ts) tm = sc" unfolding fadd_def ts_def tm_def sc_def
    by (subst f64_eq[where e = "- 4"]) (simp_all add: f64_calc)
  have low: "fsub tmin d = lo" unfolding fsub_def tmin_def d_def lo_def
    by (subst f64_eq[where e = "- 1"]) (simp_all add: f64_calc)
  have high: "fadd tmax d = hi" unfolding fadd_def tmax_def d_def hi_def
    by (subst f64_eq[where e = "- 1"]) (simp_all add: f64_calc)
  have sd_pos: "sd > 0" by (simp add: sd_def)
  have clip: "max lo (min hi sc) = sc" by (simp add: lo_def hi_def sc_def)
  have "calibratePredictions_f64 [d, d, d] = [sc, sc, sc]"
    unfolding calibratePredictions_f64_def
    by (simp add: Let_def a1 a2 a3 mean dv sq b1 b2 b3 var std z zs scaled low high sd_pos clip
                  c_d c_ts c_tm c_tmin c_tmax)
  moreover have "sc \<noteq> tm" by (simp add: sc_def tm_def)
  ultimately show ?thesis
    unfolding c_d c_tm by (simp add: sc_def tm_def)
qed

section \<open>Properties of the aggregator\<close>

subsection \<open>First and last commit\<close>

lemma header_line_keeps_stats:
  "header_line st line = Inr st' \<Longrightarrow>
   fileStats st' = fileStats st \<and> pathMappings st' = pathMappings st"
  by (auto simp: header_line_def Let_def split: if_splits)






lemma dates_ordered_empty: "dates_ordered []"
  by (simp add: dates_ordered_def)












subsection \<open>Days active\<close>

lemma results_of_set: "r \<in> set (results_of c stats) \<Longrightarrow> \<exists>p s. r = result_record c p s"
  by (induction c stats rule: results_of.induct) auto


text \<open>The two day fields of a record returned, by the dates of the record.\<close>

lemma returned_record_days:
  assumes "fetchCommitData c logOutput = Inr rs" "r \<in> set rs"
  shows "(\<forall>f l. created_at r = Date f \<and> last_modified r = Date l \<longrightarrow>
            days_active r = Some (real_of_int (max \<lceil>real_of_int (l - f) / 86400000\<rceil> 1)) \<and>
            commits_per_day r
            = Some (commits r / real_of_int (max \<lceil>real_of_int (l - f) / 86400000\<rceil> 1))) \<and>
         (created_at r = InvalidDate \<or> last_modified r = InvalidDate \<longrightarrow>
            days_active r = None \<and> commits_per_day r = None)"
proof (cases "process_lines c (initial_state c) (log_lines logOutput)")
  case (Inl e)
  with assms(1) show ?thesis by (simp add: fetchCommitData_def fetch_lines_def)
next
  case (Inr st)
  with assms(1) have "rs = results_of c (fileStats st)"
    by (simp add: fetchCommitData_def fetch_lines_def)
  with assms(2) obtain p s where r: "r = result_record c p s"
    using results_of_set by blast
  show ?thesis
    unfolding r
    by (cases "fs_first_commit s"; cases "fs_last_commit s")
       (simp_all add: result_record_def daysActive_def Let_def)
qed





text \<open>A record one of whose dates is invalid has \<open>NaN\<close> in both day fields.\<close>

lemma days_active_of_invalid_dates:
  assumes "fetchCommitData c logOutput = Inr rs" "r \<in> set rs"
    "created_at r = InvalidDate \<or> last_modified r = InvalidDate"
  shows "days_active r = None \<and> commits_per_day r = None"
  using returned_record_days[OF assms(1,2)] assms(3) by blast

subsection \<open>Lines without numeric columns\<close>

lemma first_some_None: "first_some xs = None \<longleftrightarrow> (\<forall>x \<in> set xs. x = None)"
  by (induction xs rule: first_some.induct) auto

lemma re_items_Rep_None:
  "re_items (Rep p mn # r) s = None \<longleftrightarrow>
   (\<forall>k. mn \<le> k \<and> k \<le> length (takeWhile p s) \<longrightarrow> re_items r (drop k s) = None)"
  by (auto simp: first_some_None)

lemma re_items_Rep_Some:
  assumes "mn \<le> k" "k \<le> length (takeWhile p s)" "re_items r (drop k s) \<noteq> None"
  shows "re_items (Rep p mn # r) s \<noteq> None"
proof
  assume "re_items (Rep p mn # r) s = None"
  then have "\<forall>k. mn \<le> k \<and> k \<le> length (takeWhile p s) \<longrightarrow> re_items r (drop k s) = None"
    unfolding re_items_Rep_None .
  then have "re_items r (drop k s) = None"
    using assms(1,2) by blast
  with assms(3) show False by blast
qed

lemma drop_run_hd:
  "k < length (takeWhile p s) \<Longrightarrow> takeWhile q (drop k s) \<noteq> [] \<Longrightarrow> \<exists>c. p c \<and> q c"
proof (induction s arbitrary: k)
  case Nil
  then show ?case by simp
next
  case (Cons a s)
  show ?case
  proof (cases k)
    case 0
    with Cons.prems show ?thesis by (auto split: if_splits)
  next
    case (Suc j)
    with Cons.prems Cons.IH[of j] show ?thesis by (auto split: if_splits)
  qed
qed

lemma digit_not_ws: "is_digit c \<Longrightarrow> \<not> is_ws c"
  by (auto simp: is_digit_def is_ws_def)

lemma drop_takeWhile_length: "drop (length (takeWhile p s)) s = dropWhile p s"
  by (induction s) auto

lemma rep_full_run:
  assumes "k \<le> length (takeWhile p s)" "takeWhile q (drop k s) \<noteq> []" "\<And>c. p c \<Longrightarrow> \<not> q c"
  shows "drop k s = dropWhile p s"
proof -
  have "\<not> k < length (takeWhile p s)"
    using drop_run_hd[of k p s q] assms(2,3) by blast
  with assms(1) have "k = length (takeWhile p s)" by simp
  then show ?thesis by (simp add: drop_takeWhile_length)
qed

text \<open>The expression \<open>/^\d+\s+\d+\s+/\<close> matches exactly the lines with two numeric columns.\<close>

lemma numstat_match_iff: "re_items numstat_re line \<noteq> None \<longleftrightarrow> numeric_columns line"
proof
  assume "re_items numstat_re line \<noteq> None"
  then obtain k1 k2 k3 k4 where
    k1: "1 \<le> k1" "k1 \<le> length (takeWhile is_digit line)" and
    k2: "1 \<le> k2" "k2 \<le> length (takeWhile is_ws (drop k1 line))" and
    k3: "1 \<le> k3" "k3 \<le> length (takeWhile is_digit (drop k2 (drop k1 line)))" and
    k4: "1 \<le> k4" "k4 \<le> length (takeWhile is_ws (drop k3 (drop k2 (drop k1 line))))"
    unfolding numstat_re_def re_items_Rep_None by auto
  have d1: "takeWhile is_digit line \<noteq> []" using k1 by auto
  have w1: "takeWhile is_ws (drop k1 line) \<noteq> []" using k2 by auto
  have e1: "drop k1 line = dropWhile is_digit line"
    using rep_full_run[OF k1(2) w1] digit_not_ws by blast
  have d2: "takeWhile is_digit (drop k2 (drop k1 line)) \<noteq> []" using k3 by auto
  have e2: "drop k2 (drop k1 line) = dropWhile is_ws (drop k1 line)"
    using rep_full_run[OF k2(2) d2] digit_not_ws by blast
  have w2: "takeWhile is_ws (drop k3 (drop k2 (drop k1 line))) \<noteq> []" using k4 by auto
  have e3: "drop k3 (drop k2 (drop k1 line)) = dropWhile is_digit (drop k2 (drop k1 line))"
    using rep_full_run[OF k3(2) w2] digit_not_ws by blast
  have w1': "takeWhile is_ws (dropWhile is_digit line) \<noteq> []"
    using w1 unfolding e1 .
  have e2': "drop k2 (dropWhile is_digit line) = dropWhile is_ws (dropWhile is_digit line)"
    using e2 unfolding e1 .
  have d2': "takeWhile is_digit (dropWhile is_ws (dropWhile is_digit line)) \<noteq> []"
    using d2 unfolding e1 e2' .
  have e3': "drop k3 (dropWhile is_ws (dropWhile is_digit line))
             = dropWhile is_digit (dropWhile is_ws (dropWhile is_digit line))"
    using e3 unfolding e1 e2' .
  have w2':
    "takeWhile is_ws (dropWhile is_digit (dropWhile is_ws (dropWhile is_digit line))) \<noteq> []"
    using w2 unfolding e1 e2' e3' .
  show "numeric_columns line"
    using d1 w1' d2' w2' by (simp add: numeric_columns_def Let_def)
next
  assume nc: "numeric_columns line"
  define r1 where "r1 = dropWhile is_digit line"
  define r2 where "r2 = dropWhile is_ws r1"
  define r3 where "r3 = dropWhile is_digit r2"
  from nc have ne: "takeWhile is_digit line \<noteq> []" "takeWhile is_ws r1 \<noteq> []"
    "takeWhile is_digit r2 \<noteq> []" "takeWhile is_ws r3 \<noteq> []"
    by (simp_all add: numeric_columns_def Let_def r1_def r2_def r3_def)
  have n1: "1 \<le> length (takeWhile is_digit line)" "1 \<le> length (takeWhile is_ws r1)"
    "1 \<le> length (takeWhile is_digit r2)" "1 \<le> length (takeWhile is_ws r3)"
    using ne by (simp_all add: Suc_le_eq)
  have l4: "re_items [Rep is_ws 1] r3 \<noteq> None"
    by (rule re_items_Rep_Some[OF n1(4) order_refl]) simp
  then have l4': "re_items [Rep is_ws 1] (drop (length (takeWhile is_digit r2)) r2) \<noteq> None"
    unfolding drop_takeWhile_length r3_def .
  have l3: "re_items [Rep is_digit 1, Rep is_ws 1] r2 \<noteq> None"
    by (rule re_items_Rep_Some[OF n1(3) order_refl l4'])
  then have l3':
    "re_items [Rep is_digit 1, Rep is_ws 1] (drop (length (takeWhile is_ws r1)) r1) \<noteq> None"
    unfolding drop_takeWhile_length r2_def .
  have l2: "re_items [Rep is_ws 1, Rep is_digit 1, Rep is_ws 1] r1 \<noteq> None"
    by (rule re_items_Rep_Some[OF n1(2) order_refl l3'])
  then have l2': "re_items [Rep is_ws 1, Rep is_digit 1, Rep is_ws 1]
                    (drop (length (takeWhile is_digit line)) line) \<noteq> None"
    unfolding drop_takeWhile_length r1_def .
  show "re_items numstat_re line \<noteq> None"
    unfolding numstat_re_def
    by (rule re_items_Rep_Some[OF n1(1) order_refl l2'])
qed

lemma process_lines_append:
  "process_lines c st (xs @ ys) =
   (case process_lines c st xs of Inl e \<Rightarrow> Inl e | Inr st' \<Rightarrow> process_lines c st' ys)"
  by (induction xs arbitrary: st) (auto split: sum.splits)

text \<open>A line left alone by the loop in every state can be taken out of the log.\<close>

lemma skipped_line_removable:
  assumes "\<And>s. process_line c s line = Inr s"
  shows "fetch_lines c (before @ line # after) = fetch_lines c (before @ after)"
  using assms by (simp add: fetch_lines_def process_lines_append split: sum.splits)

text \<open>
  Claim C10 says that a line whose leading columns are not both sequences of decimal
  digits is skipped entirely, and that a file touched only by such lines never appears in
  the output.  Two histories refute it.  In the first the binary file of the line
  \<open>-<TAB>-<TAB>docs/a|b|c|fix.png\<close> has \<open>|\<close> in its name: the line is read as a commit
  header, and the record of the source file on the next line has the author \<open>b\<close> and one
  bug fix, where the same history without the line gives the author \<open>dev@x.org\<close> and no
  bug fix.  In the second \<open>new/file.ts\<close> is named by a binary line only, and is in the
  output all the same: the line that moves \<open>src/old/file.ts\<close> to \<open>src/new/file.ts\<close> is
  counted under \<open>new/file.ts\<close>.
\<close>

theorem non_numeric_line_counterexample:
  "\<not> numeric_columns barred_binary_line \<and>
   log_lines barred_binary_log = [header_sample, barred_binary_line, stat_sample] \<and>
   log_lines one_commit_log = [header_sample, stat_sample] \<and>
   map_sum id (map author_names) (fetchCommitData col barred_binary_log) = Inr [[''b'']] \<and>
   map_sum id (map bug_commits) (fetchCommitData col barred_binary_log) = Inr [1] \<and>
   map_sum id (map author_names) (fetchCommitData col one_commit_log) = Inr [[''dev@x.org'']] \<and>
   map_sum id (map bug_commits) (fetchCommitData col one_commit_log) = Inr [0] \<and>
   log_lines moved_log
   = [''c1|dev@x.org|1700000000|move file'',
      ''-'' @ [CHR 0x09] @ ''-'' @ [CHR 0x09] @ ''new/file.ts'',
      ''0'' @ [CHR 0x09] @ ''0'' @ [CHR 0x09] @ ''src/{old => new}/file.ts''] \<and>
   \<not> numeric_columns (''-'' @ [CHR 0x09] @ ''-'' @ [CHR 0x09] @ ''new/file.ts'') \<and>
   summaries (fetchCommitData col moved_log) = Inr [(''new/file.ts'', 1, 0, 0)]"
  by code_simp

text \<open>
  Claim C10, amended.  For every line of the log that does not start with two numeric
  columns, such as the line \<open>-<TAB>-<TAB>path\<close> of a binary file, the loop creates and
  changes no entry of the statistics and no path mapping, whatever it returns.  When the
  line has no \<open>|\<close>, so that it is not read as a commit header, the loop skips it entirely:
  its state stays as it was, and the aggregator returns for a log with the line what it
  returns for the log without it.
\<close>

theorem non_numeric_line_no_entry:
  assumes "\<not> numeric_columns line"
  shows "(\<forall>st'. process_line c st line = Inr st' \<longrightarrow>
                fileStats st' = fileStats st \<and> pathMappings st' = pathMappings st) \<and>
         (\<not> js_includes line ''|'' \<longrightarrow>
            process_line c st line = Inr st \<and>
            fetch_lines c (before @ line # after) = fetch_lines c (before @ after))"
proof -
  from assms have nomatch: "re_items numstat_re line = None"
    using numstat_match_iff[of line] by blast
  have keep: "\<forall>st'. process_line c st line = Inr st' \<longrightarrow>
                fileStats st' = fileStats st \<and> pathMappings st' = pathMappings st"
    using nomatch header_line_keeps_stats[of st line]
    by (auto simp: process_line_def)
  have skip: "process_line c s line = Inr s" if "\<not> js_includes line ''|''" for s
    using that nomatch by (simp add: process_line_def)
  have "fetch_lines c (before @ line # after) = fetch_lines c (before @ after)"
    if "\<not> js_includes line ''|''"
    using skip[OF that] by (rule skipped_line_removable)
  with keep skip show ?thesis by blast
qed

text \<open>The line of a binary file with the name of a source file, in the middle of a run of
  the collector that takes every file: were the line read as a line of numeric columns,
  it would create an entry for \<open>src/app.ts\<close>.\<close>

lemma binary_source_line_shape:
  "\<not> numeric_columns binary_source_line \<and> \<not> js_includes binary_source_line ''|'' \<and>
   map fst (fileStats (stat_line col busy_state binary_source_line)) = [''a.ts'', ''src/app.ts'']"
  by code_simp

lemma binary_source_line_run:
  "summaries (fetch_lines col [header_sample, stat_sample])
   = Inr [(''src/parser.ts'', 1, 10, 0)]"
  by code_simp

theorem non_numeric_line_no_entry_witness:
  "\<not> numeric_columns binary_source_line \<and> \<not> js_includes binary_source_line ''|'' \<and>
   map fst (fileStats (stat_line col busy_state binary_source_line)) = [''a.ts'', ''src/app.ts''] \<and>
   process_line col busy_state binary_source_line = Inr busy_state \<and>
   fetch_lines col ([header_sample] @ binary_source_line # [stat_sample])
   = fetch_lines col ([header_sample] @ [stat_sample]) \<and>
   summaries (fetch_lines col ([header_sample] @ binary_source_line # [stat_sample]))
   = Inr [(''src/parser.ts'', 1, 10, 0)]"
  using non_numeric_line_no_entry
          [of binary_source_line col busy_state "[header_sample]" "[stat_sample]"]
        binary_source_line_shape binary_source_line_run
  by simp

text \<open>A log none of whose lines has numeric columns gives no record.\<close>

lemma no_numeric_lines_keep_stats:
  assumes "\<forall>l \<in> set ls. \<not> numeric_columns l" "process_lines c st ls = Inr st'"
  shows "fileStats st' = fileStats st"
  using assms
proof (induction ls arbitrary: st)
  case Nil
  then show ?case by simp
next
  case (Cons l ls)
  from Cons.prems(2) obtain st1 where
    l: "process_line c st l = Inr st1" and r: "process_lines c st1 ls = Inr st'"
    by (auto split: sum.splits)
  have "re_items numstat_re l = None"
    using Cons.prems(1) numstat_match_iff[of l] by auto
  with l have "fileStats st1 = fileStats st"
    using header_line_keeps_stats[of st l st1] by (auto simp: process_line_def split: if_splits)
  moreover have "fileStats st' = fileStats st1"
    using Cons.IH[OF _ r] Cons.prems(1) by simp
  ultimately show ?case by simp
qed

lemma no_numeric_lines_no_records:
  assumes "\<forall>l \<in> set ls. \<not> numeric_columns l" "fetch_lines c ls = Inr rs"
  shows "rs = []"
proof (cases "process_lines c (initial_state c) ls")
  case (Inl e)
  with assms(2) show ?thesis by (simp add: fetch_lines_def)
next
  case (Inr st)
  from no_numeric_lines_keep_stats[OF assms(1) Inr] have "fileStats st = []"
    by (simp add: initial_state_def)
  with Inr assms(2) show ?thesis by (simp add: fetch_lines_def)
qed

text \<open>So a log gives the same statistics with and without the lines that have neither
  numeric columns nor a \<open>|\<close>.\<close>

lemma skipped_lines_removable:
  "process_lines c st (filter (\<lambda>l. numeric_columns l \<or> js_includes l ''|'') ls)
   = process_lines c st ls"
proof (induction ls arbitrary: st)
  case Nil
  then show ?case by simp
next
  case (Cons l ls)
  show ?case
  proof (cases "numeric_columns l \<or> js_includes l ''|''")
    case True
    then show ?thesis using Cons.IH by (simp split: sum.splits)
  next
    case False
    then have "process_line c st l = Inr st"
      using header_line_keeps_stats numstat_match_iff[of l] by (simp add: process_line_def)
    with False show ?thesis using Cons.IH by simp
  qed
qed

subsection \<open>Chains of renames\<close>

text \<open>The canonical path is one lookup in the mappings, not a chase along them.\<close>

lemma canonical_of_one_lookup:
  "canonical_of mappings p = (case map_of mappings p of None \<Rightarrow> p | Some q \<Rightarrow> q)"
  by (induction mappings p rule: canonical_of.induct) auto

text \<open>
  Claim C2 says that after the renames A to B and B to C the commits that touch A, B and
  C are all counted under C.  The loop resolves a path through the mappings once: in the
  sample history the two rename commits are counted under \<open>C.ts\<close>, but the commit that
  created \<open>A.ts\<close> is counted under \<open>B.ts\<close>; and when only files that exist are taken, and
  only \<open>C.ts\<close> exists, that commit is counted nowhere.
\<close>

theorem rename_chain_single_hop:
  "summaries (fetchCommitData col rename_log) = Inr [(''C.ts'', 2, 3, 3), (''B.ts'', 1, 10, 0)] \<and>
   summaries (fetchCommitData col_existing rename_log) = Inr [(''C.ts'', 2, 3, 3)]"
  by code_simp

end
